theory Spec2Isabelle
  imports Main "HOL-Library.Char_ord" "HOL-Library.List_Lexorder" "HOL-Library.AList"
begin

section \<open>Python values used by \<open>streamlit_app.py\<close>\<close>

text \<open>
  The script is a Streamlit page: the whole file runs from top to bottom on every
  interaction, reading the widgets and reading and writing \<open>st.session_state\<close>.
  Exceptions are values of \<open>error + 'a\<close> (\<open>Inl\<close> the exception), strings are
  \<open>string\<close> (a \<open>char\<close> stands for one code point), Python's unbounded integers
  are \<open>int\<close> where a subtraction can go below zero and \<open>nat\<close> for list positions.
\<close>

datatype error = TypeError | ValueError | IndexError | AttributeError

subsection \<open>\<open>datetime\<close> objects and their comparison\<close>

text \<open>
  A \<open>datetime\<close> carries its calendar fields and a \<open>tzinfo\<close>: \<open>None\<close> for a naive
  value, \<open>Some off\<close> for an aware one whose UTC offset is \<open>off\<close> microseconds.
\<close>

record pydatetime =
  year :: nat
  month :: nat
  day :: nat
  hour :: nat
  minute :: nat
  second :: nat
  microsecond :: nat
  tzinfo :: "int option"

definition mk_datetime ::
  "nat \<Rightarrow> nat \<Rightarrow> nat \<Rightarrow> nat \<Rightarrow> nat \<Rightarrow> nat \<Rightarrow> nat \<Rightarrow> int option \<Rightarrow> pydatetime" where
  "mk_datetime y mo d h mi s us tz =
     \<lparr>year = y, month = mo, day = d, hour = h, minute = mi, second = s,
      microsecond = us, tzinfo = tz\<rparr>"

text \<open>\<open>datetime.min\<close> is \<open>datetime(1, 1, 1, 0, 0)\<close>, a naive value.\<close>

definition datetime_min :: pydatetime where
  "datetime_min = mk_datetime 1 1 1 0 0 0 0 None"

definition is_leap :: "nat \<Rightarrow> bool" where
  "is_leap y = (y mod 4 = 0 \<and> (0 < y mod 100 \<or> y mod 400 = 0))"

definition days_in_month :: "nat \<Rightarrow> nat \<Rightarrow> nat" where
  "days_in_month y m =
     (if m = 2 then (if is_leap y then 29 else 28)
      else if m = 4 \<or> m = 6 \<or> m = 9 \<or> m = 11 then 30 else 31)"

definition days_before_year :: "nat \<Rightarrow> nat" where
  "days_before_year y = (y - 1) * 365 + (y - 1) div 4 - (y - 1) div 100 + (y - 1) div 400"

definition days_before_month :: "nat \<Rightarrow> nat \<Rightarrow> nat" where
  "days_before_month y m = sum_list (map (days_in_month y) [1..<m])"

definition ymd2ord :: "nat \<Rightarrow> nat \<Rightarrow> nat \<Rightarrow> nat" where
  "ymd2ord y m d = days_before_year y + days_before_month y m + d"

text \<open>The fields a comparison of two values with the same \<open>tzinfo\<close> compares, in order.\<close>

definition fields :: "pydatetime \<Rightarrow> nat list" where
  "fields d = [year d, month d, day d, hour d, minute d, second d, microsecond d]"

text \<open>Microseconds since \<open>0001-01-01T00:00:00\<close> of the wall clock, then minus the offset.\<close>

definition wall_us :: "pydatetime \<Rightarrow> int" where
  "wall_us d =
     ((int (ymd2ord (year d) (month d) (day d)) * 86400
        + int (hour d) * 3600 + int (minute d) * 60 + int (second d)) * 1000000
      + int (microsecond d))"

definition utc_us :: "pydatetime \<Rightarrow> int \<Rightarrow> int" where
  "utc_us d off = wall_us d - off"

text \<open>
  \<open>a < b\<close> and \<open>a <= b\<close> on \<open>datetime\<close>: two naive values, or two aware values
  with one offset, compare by their fields; two aware values with different offsets
  compare in UTC; a naive value against an aware one raises \<open>TypeError\<close>.
\<close>

definition dt_less :: "pydatetime \<Rightarrow> pydatetime \<Rightarrow> error + bool" where
  "dt_less a b =
     (case tzinfo a of
        None \<Rightarrow> (case tzinfo b of None \<Rightarrow> Inr (fields a < fields b) | Some y \<Rightarrow> Inl TypeError)
      | Some x \<Rightarrow>
          (case tzinfo b of
             None \<Rightarrow> Inl TypeError
           | Some y \<Rightarrow> Inr (if x = y then fields a < fields b else utc_us a x < utc_us b y)))"

definition dt_le :: "pydatetime \<Rightarrow> pydatetime \<Rightarrow> error + bool" where
  "dt_le a b =
     (case tzinfo a of
        None \<Rightarrow> (case tzinfo b of None \<Rightarrow> Inr (fields a \<le> fields b) | Some y \<Rightarrow> Inl TypeError)
      | Some x \<Rightarrow>
          (case tzinfo b of
             None \<Rightarrow> Inl TypeError
           | Some y \<Rightarrow> Inr (if x = y then fields a \<le> fields b else utc_us a x \<le> utc_us b y)))"

subsection \<open>\<open>list.sort(key=...)\<close>\<close>

text \<open>
  \<open>list.sort\<close> is a stable comparison sort that uses only \<open><\<close> on the keys and lets an
  exception of a comparison escape. It is modelled by a stable insertion sort over a
  comparison that can fail.
\<close>

fun insort_by :: "('a \<Rightarrow> 'a \<Rightarrow> error + bool) \<Rightarrow> 'a \<Rightarrow> 'a list \<Rightarrow> error + 'a list" where
  "insort_by lt x [] = Inr [x]"
| "insort_by lt x (y # ys) =
     (case lt y x of
        Inl e \<Rightarrow> Inl e
      | Inr b \<Rightarrow>
          if b then (case insort_by lt x ys of Inl e \<Rightarrow> Inl e | Inr zs \<Rightarrow> Inr (y # zs))
          else Inr (x # y # ys))"

fun sort_by :: "('a \<Rightarrow> 'a \<Rightarrow> error + bool) \<Rightarrow> 'a list \<Rightarrow> error + 'a list" where
  "sort_by lt [] = Inr []"
| "sort_by lt (x # xs) =
     (case sort_by lt xs of Inl e \<Rightarrow> Inl e | Inr ys \<Rightarrow> insort_by lt x ys)"

subsection \<open>String operations\<close>

text \<open>\<open>s.replace(c, new)\<close> for a one-character \<open>c\<close>: every occurrence is replaced.\<close>

definition replace :: "char \<Rightarrow> string \<Rightarrow> string \<Rightarrow> string" where
  "replace c new s = concat (map (\<lambda>x. if x = c then new else [x]) s)"

text \<open>\<open>s.split(c)\<close> for a one-character separator: one more token than separators.\<close>

fun split :: "char \<Rightarrow> string \<Rightarrow> string list" where
  "split c [] = [[]]"
| "split c (x # xs) =
     (if x = c then [] # split c xs
      else (case split c xs of [] \<Rightarrow> [[x]] | t # ts \<Rightarrow> (x # t) # ts))"

text \<open>The code points below 256 that \<open>str.strip()\<close> removes.\<close>

definition is_space :: "char \<Rightarrow> bool" where
  "is_space c =
     (let n = (of_char c :: nat)
      in (9 \<le> n \<and> n \<le> 13) \<or> (28 \<le> n \<and> n \<le> 32) \<or> n = 133 \<or> n = 160)"

definition strip :: "string \<Rightarrow> string" where
  "strip s = rev (dropWhile is_space (rev (dropWhile is_space s)))"

text \<open>\<open>needle in haystack\<close> on strings: the needle occurs as a contiguous run.\<close>

fun startswith :: "string \<Rightarrow> string \<Rightarrow> bool" where
  "startswith s [] = True"
| "startswith [] (p # ps) = False"
| "startswith (x # xs) (p # ps) = (x = p \<and> startswith xs ps)"

fun contains :: "string \<Rightarrow> string \<Rightarrow> bool" where
  "contains needle [] = (needle = [])"
| "contains needle (x # xs) = (startswith (x # xs) needle \<or> contains needle xs)"

definition is_digit :: "char \<Rightarrow> bool" where
  "is_digit c = (CHR ''0'' \<le> c \<and> c \<le> CHR ''9'')"

definition digit_val :: "char \<Rightarrow> nat" where
  "digit_val c = of_char c - 48"

text \<open>\<open>int(s)\<close> on a string of decimal digits.\<close>

definition digits_val :: "string \<Rightarrow> nat" where
  "digits_val s = foldl (\<lambda>n c. 10 * n + digit_val c) 0 s"

subsection \<open>\<open>datetime.strptime(s, "%Y/%m/%d")\<close>\<close>

text \<open>
  Both calls of \<open>strptime\<close> in the script pass the format \<open>"%Y/%m/%d"\<close>. The library
  matches the text against
  \<^verbatim>\<open>(?P<Y>\d\d\d\d)/(?P<m>1[0-2]|0[1-9]|[1-9])/(?P<d>3[0-1]|[1-2]\d|0[1-9]|[1-9]| [1-9])\<close>,
  refuses text left over after the match, and builds the date, which refuses year 0
  and a day the month does not have. Every failure is a \<open>ValueError\<close>; the result is
  naive, at midnight.
\<close>

definition nonzero_digit :: "char \<Rightarrow> bool" where
  "nonzero_digit c = (CHR ''1'' \<le> c \<and> c \<le> CHR ''9'')"

fun match_month :: "string \<Rightarrow> (nat \<times> string) option" where
  "match_month (a # b # r) =
     (if a = CHR ''1'' \<and> (b = CHR ''0'' \<or> b = CHR ''1'' \<or> b = CHR ''2'')
        then Some (10 + digit_val b, r)
      else if a = CHR ''0'' \<and> nonzero_digit b then Some (digit_val b, r)
      else if nonzero_digit a then Some (digit_val a, b # r)
      else None)"
| "match_month [a] = (if nonzero_digit a then Some (digit_val a, []) else None)"
| "match_month [] = None"

fun match_day :: "string \<Rightarrow> (nat \<times> string) option" where
  "match_day (a # b # r) =
     (if a = CHR ''3'' \<and> (b = CHR ''0'' \<or> b = CHR ''1'') then Some (30 + digit_val b, r)
      else if (a = CHR ''1'' \<or> a = CHR ''2'') \<and> is_digit b
        then Some (10 * digit_val a + digit_val b, r)
      else if a = CHR ''0'' \<and> nonzero_digit b then Some (digit_val b, r)
      else if nonzero_digit a then Some (digit_val a, b # r)
      else if a = CHR '' '' \<and> nonzero_digit b then Some (digit_val b, r)
      else None)"
| "match_day [a] = (if nonzero_digit a then Some (digit_val a, []) else None)"
| "match_day [] = None"

definition strptime :: "string \<Rightarrow> error + pydatetime" where
  "strptime s =
     (if length s < 5 \<or> \<not> list_all is_digit (take 4 s) \<or> s ! 4 \<noteq> CHR ''/''
        then Inl ValueError
      else
        (case match_month (drop 5 s) of
           None \<Rightarrow> Inl ValueError
         | Some (m, r) \<Rightarrow>
             (case r of
                [] \<Rightarrow> Inl ValueError
              | sep # r' \<Rightarrow>
                  if sep \<noteq> CHR ''/'' then Inl ValueError
                  else
                    (case match_day r' of
                       None \<Rightarrow> Inl ValueError
                     | Some (d, rest) \<Rightarrow>
                         let y = digits_val (take 4 s)
                         in if rest \<noteq> [] \<or> y < 1 \<or> days_in_month y m < d
                              then Inl ValueError
                            else Inr (mk_datetime y m d 0 0 0 0 None)))))"

subsection \<open>\<open>datetime.fromisoformat\<close>\<close>

text \<open>
  The texts \<open>fromisoformat\<close> accepts differ between versions of the library, so the
  functions of the script below take the parser as their argument \<open>fromiso\<close>, and what
  is proved of them for every \<open>fromiso\<close> holds for each version. \<open>fromisoformat\<close>
  is the parser of the library's reference implementation for the documented format
  \<^verbatim>\<open>YYYY-MM-DD[*HH[:MM[:SS[.fff[fff]]]][+HH:MM[:SS[.ffffff]]]]\<close>; it is what the
  script is run with on concrete inputs. Every failure is a \<open>ValueError\<close>.
\<close>

fun two_digits :: "string \<Rightarrow> (nat \<times> string) option" where
  "two_digits (a # b # r) =
     (if is_digit a \<and> is_digit b then Some (10 * digit_val a + digit_val b, r) else None)"
| "two_digits [a] = None"
| "two_digits [] = None"

definition parse_fraction :: "string \<Rightarrow> error + nat" where
  "parse_fraction f =
     (if (length f = 3 \<or> length f = 6) \<and> list_all is_digit f
        then Inr (digits_val f * (if length f = 3 then 1000 else 1))
      else Inl ValueError)"

definition parse_hh_mm_ss_ff :: "string \<Rightarrow> error + (nat \<times> nat \<times> nat \<times> nat)" where
  "parse_hh_mm_ss_ff t =
     (case two_digits t of
        None \<Rightarrow> Inl ValueError
      | Some (h, r1) \<Rightarrow>
          (case r1 of
             [] \<Rightarrow> Inr (h, 0, 0, 0)
           | c1 # t1 \<Rightarrow>
               if c1 \<noteq> CHR '':'' then Inl ValueError
               else
                 (case two_digits t1 of
                    None \<Rightarrow> Inl ValueError
                  | Some (m, r2) \<Rightarrow>
                      (case r2 of
                         [] \<Rightarrow> Inr (h, m, 0, 0)
                       | c2 # t2 \<Rightarrow>
                           if c2 \<noteq> CHR '':'' then Inl ValueError
                           else
                             (case two_digits t2 of
                                None \<Rightarrow> Inl ValueError
                              | Some (s, r3) \<Rightarrow>
                                  (case r3 of
                                     [] \<Rightarrow> Inr (h, m, s, 0)
                                   | c3 # f \<Rightarrow>
                                       if c3 \<noteq> CHR ''.'' then Inl ValueError
                                       else
                                         (case parse_fraction f of
                                            Inl e \<Rightarrow> Inl e
                                          | Inr us \<Rightarrow> Inr (h, m, s, us))))))))"

text \<open>The time text up to the first \<open>-\<close> (or, when there is none, the first \<open>+\<close>),
  and the sign and the text after it.\<close>

definition tz_split :: "string \<Rightarrow> string \<times> (char \<times> string) option" where
  "tz_split t =
     (if CHR ''-'' \<in> set t
        then (takeWhile (\<lambda>c. c \<noteq> CHR ''-'') t,
              Some (CHR ''-'', tl (dropWhile (\<lambda>c. c \<noteq> CHR ''-'') t)))
      else if CHR ''+'' \<in> set t
        then (takeWhile (\<lambda>c. c \<noteq> CHR ''+'') t,
              Some (CHR ''+'', tl (dropWhile (\<lambda>c. c \<noteq> CHR ''+'') t)))
      else (t, None))"

definition parse_isoformat_time ::
  "string \<Rightarrow> error + (nat \<times> nat \<times> nat \<times> nat \<times> int option)" where
  "parse_isoformat_time t =
     (if length t < 2 then Inl ValueError
      else
        (case tz_split t of
           (timestr, tzpart) \<Rightarrow>
             (case parse_hh_mm_ss_ff timestr of
                Inl e \<Rightarrow> Inl e
              | Inr (h, m, s, us) \<Rightarrow>
                  (case tzpart of
                     None \<Rightarrow> Inr (h, m, s, us, None)
                   | Some (sign, tzstr) \<Rightarrow>
                       if length tzstr \<noteq> 5 \<and> length tzstr \<noteq> 8 \<and> length tzstr \<noteq> 15
                         then Inl ValueError
                       else
                         (case parse_hh_mm_ss_ff tzstr of
                            Inl e \<Rightarrow> Inl e
                          | Inr (th, tm, ts, tus) \<Rightarrow>
                              let td = (int th * 3600 + int tm * 60 + int ts) * 1000000 + int tus;
                                  off = (if sign = CHR ''-'' then - td else td)
                              in if td < 86400 * 1000000
                                   then Inr (h, m, s, us, Some off)
                                 else Inl ValueError)))))"

definition fromisoformat :: "string \<Rightarrow> error + pydatetime" where
  "fromisoformat s =
     (let dstr = take 10 s; tstr = drop 11 s
      in if length dstr \<noteq> 10 \<or> \<not> list_all is_digit (take 4 dstr) \<or> dstr ! 4 \<noteq> CHR ''-''
            \<or> \<not> list_all is_digit (take 2 (drop 5 dstr)) \<or> dstr ! 7 \<noteq> CHR ''-''
            \<or> \<not> list_all is_digit (drop 8 dstr)
           then Inl ValueError
         else
           (case (if tstr = [] then Inr (0, 0, 0, 0, None) else parse_isoformat_time tstr) of
              Inl e \<Rightarrow> Inl e
            | Inr (h, mi, sec, us, tz) \<Rightarrow>
                let y = digits_val (take 4 dstr);
                    mo = digits_val (take 2 (drop 5 dstr));
                    d = digits_val (drop 8 dstr)
                in if 1 \<le> y \<and> 1 \<le> mo \<and> mo \<le> 12 \<and> 1 \<le> d \<and> d \<le> days_in_month y mo
                      \<and> h < 24 \<and> mi < 60 \<and> sec < 60
                     then Inr (mk_datetime y mo d h mi sec us tz)
                   else Inl ValueError))"

section \<open>The script\<close>

subsection \<open>Records and their sort (lines 10 to 25)\<close>

text \<open>
  A tweet is a JSON object with text fields; a key can be absent (the script reads
  every field with \<open>.get\<close>), which is \<open>None\<close> here.
\<close>

record tweet =
  content :: "string option"
  tweetDate :: "string option"
  tweetUrl :: "string option"
  profile_url :: "string option"

text \<open>
  \<open>tweet.get("tweetDate")\<close> is \<open>None\<close> for an absent key, and \<open>None.replace\<close>
  raises \<open>AttributeError\<close>; the bare \<open>except\<close> turns every exception into
  \<open>datetime.min\<close>.
\<close>

definition safe_parse_date :: "(string \<Rightarrow> error + pydatetime) \<Rightarrow> tweet \<Rightarrow> pydatetime" where
  "safe_parse_date fromiso tw =
     (case (case tweetDate tw of
              None \<Rightarrow> Inl AttributeError
            | Some s \<Rightarrow> fromiso (replace CHR ''Z'' ''+00:00'' s)) of
        Inl e \<Rightarrow> datetime_min
      | Inr d \<Rightarrow> d)"

text \<open>\<open>data.sort(key=safe_parse_date)\<close>.\<close>

definition sort_data :: "(string \<Rightarrow> error + pydatetime) \<Rightarrow> tweet list \<Rightarrow> error + tweet list" where
  "sort_data fromiso data =
     sort_by (\<lambda>a b. dt_less (safe_parse_date fromiso a) (safe_parse_date fromiso b)) data"

subsection \<open>Session state (lines 27 to 37)\<close>

text \<open>
  An annotation is the dictionary the save action stores. The annotation store is a
  Python \<open>dict\<close>: an association list in insertion order, read with \<open>map_of\<close> and
  written with \<open>AList.update\<close>, which overwrites in place or appends.
\<close>

record annotation =
  tag :: string
  ann_note :: string
  ann_content :: string
  ann_date :: string
  ann_user :: string
  ann_url :: string

record session =
  index :: nat
  annotations :: "(nat \<times> annotation) list"
  filter_tag :: string
  bookmarks :: "nat set"
  show_only_bookmarked :: bool

text \<open>The state of a fresh session, after the initialisation block.\<close>

definition init_session :: session where
  "init_session =
     \<lparr>index = 0, annotations = [], filter_tag = [], bookmarks = {},
      show_only_bookmarked = False\<rparr>"

subsection \<open>Tag options (lines 42 to 45)\<close>

text \<open>
  \<open>tag_options\<close> is built from a set, so its order is not fixed; the select box is
  given \<open>["All"] + sorted(tag_options)\<close>. \<open>if ann.get("tag")\<close> drops the empty tag.
\<close>

definition tag_options :: "(nat \<times> annotation) list \<Rightarrow> string set" where
  "tag_options anns = set [tag a. a \<leftarrow> map snd anns, tag a \<noteq> []]"

definition selectbox_options :: "(nat \<times> annotation) list \<Rightarrow> string list" where
  "selectbox_options anns = ''All'' # sorted_list_of_set (tag_options anns)"

subsection \<open>The filtered indices (lines 56 to 82)\<close>

definition tag_stage :: "session \<Rightarrow> string \<Rightarrow> nat list \<Rightarrow> nat list" where
  "tag_stage st tag_filter F =
     (if tag_filter \<noteq> ''All''
        then [i \<leftarrow> F. (case map_of (annotations st) i of
                         None \<Rightarrow> False
                       | Some a \<Rightarrow> tag a = tag_filter)]
      else F)"

text \<open>\<open>data[i].get("content", "")\<close>.\<close>

definition get_content :: "tweet \<Rightarrow> string" where
  "get_content tw = (case content tw of None \<Rightarrow> [] | Some c \<Rightarrow> c)"

text \<open>Every \<open>i\<close> of a stage comes from \<open>range(len(data))\<close>, so \<open>data[i]\<close> is in range.\<close>

definition keyword_stage :: "tweet list \<Rightarrow> string \<Rightarrow> nat list \<Rightarrow> nat list" where
  "keyword_stage data search_keyword F =
     (if search_keyword \<noteq> []
        then [i \<leftarrow> F. contains search_keyword (get_content (data ! i))]
      else F)"

text \<open>A list comprehension whose condition can raise: the first exception ends it.\<close>

fun filter_err :: "('a \<Rightarrow> error + bool) \<Rightarrow> 'a list \<Rightarrow> error + 'a list" where
  "filter_err p [] = Inr []"
| "filter_err p (x # xs) =
     (case p x of
        Inl e \<Rightarrow> Inl e
      | Inr b \<Rightarrow>
          (case filter_err p xs of
             Inl e \<Rightarrow> Inl e
           | Inr ys \<Rightarrow> Inr (if b then x # ys else ys)))"

text \<open>\<open>start_date <= d <= end_date\<close>: the second comparison runs only if the first
  holds.\<close>

definition between :: "pydatetime \<Rightarrow> pydatetime \<Rightarrow> pydatetime \<Rightarrow> error + bool" where
  "between start_date d end_date =
     (case dt_le start_date d of
        Inl e \<Rightarrow> Inl e
      | Inr b \<Rightarrow> if b then dt_le d end_date else Inr False)"

text \<open>The body of the \<open>try\<close>: unpacking anything but two tokens is a \<open>ValueError\<close>.\<close>

definition try_date_range ::
  "(string \<Rightarrow> error + pydatetime) \<Rightarrow> tweet list \<Rightarrow> string \<Rightarrow> nat list \<Rightarrow> error + nat list" where
  "try_date_range fromiso data date_range F =
     (case split CHR ''-'' date_range of
        [start_str, end_str] \<Rightarrow>
          (case strptime (strip start_str) of
             Inl e \<Rightarrow> Inl e
           | Inr start_date \<Rightarrow>
               (case strptime (strip end_str) of
                  Inl e \<Rightarrow> Inl e
                | Inr end_date \<Rightarrow>
                    filter_err
                      (\<lambda>i. between start_date (safe_parse_date fromiso (data ! i)) end_date) F))
      | _ \<Rightarrow> Inl ValueError)"

text \<open>\<open>except: pass\<close> leaves \<open>filtered_indices\<close> as it was.\<close>

definition date_stage ::
  "(string \<Rightarrow> error + pydatetime) \<Rightarrow> tweet list \<Rightarrow> string \<Rightarrow> nat list \<Rightarrow> nat list" where
  "date_stage fromiso data date_range F =
     (if date_range \<noteq> [] \<and> CHR ''-'' \<in> set date_range
        then (case try_date_range fromiso data date_range F of Inl e \<Rightarrow> F | Inr F' \<Rightarrow> F')
      else F)"

definition bookmark_stage :: "session \<Rightarrow> nat list \<Rightarrow> nat list" where
  "bookmark_stage st F = (if show_only_bookmarked st then [i \<leftarrow> F. i \<in> bookmarks st] else F)"

definition filtered_indices ::
  "(string \<Rightarrow> error + pydatetime) \<Rightarrow> tweet list \<Rightarrow> session \<Rightarrow> string \<Rightarrow> string \<Rightarrow> string
     \<Rightarrow> nat list" where
  "filtered_indices fromiso data st tag_filter search_keyword date_range =
     bookmark_stage st
       (date_stage fromiso data date_range
          (keyword_stage data search_keyword
             (tag_stage st tag_filter [0..<length data])))"

subsection \<open>Stop, cursor and current tweet (lines 84 to 100)\<close>

text \<open>The subscript \<open>xs[i]\<close> of a list: positions \<open>0\<close> to \<open>len(xs) - 1\<close>, and
  \<open>-len(xs)\<close> to \<open>-1\<close> read from the back; any other \<open>i\<close> is an \<open>IndexError\<close>.\<close>

definition subscript :: "'a list \<Rightarrow> int \<Rightarrow> error + 'a" where
  "subscript xs i =
     (if 0 \<le> i \<and> i < int (length xs) then Inr (xs ! nat i)
      else if i < 0 \<and> - int (length xs) \<le> i then Inr (xs ! nat (int (length xs) + i))
      else Inl IndexError)"

text \<open>\<open>xs.index(x)\<close>: the first position of \<open>x\<close>, a \<open>ValueError\<close> when there is none.\<close>

fun list_index :: "'a list \<Rightarrow> 'a \<Rightarrow> error + nat" where
  "list_index [] x = Inl ValueError"
| "list_index (y # ys) x =
     (if y = x then Inr 0
      else (case list_index ys x of Inl e \<Rightarrow> Inl e | Inr n \<Rightarrow> Inr (Suc n)))"

definition and_then :: "error + 'a \<Rightarrow> ('a \<Rightarrow> error + 'b) \<Rightarrow> error + 'b" where
  "and_then r f = (case r of Inl e \<Rightarrow> Inl e | Inr x \<Rightarrow> f x)"

text \<open>Lines 89 and 90: an index that is not in the filtered list is set to its first
  element.\<close>

definition revalidate :: "nat list \<Rightarrow> session \<Rightarrow> error + session" where
  "revalidate F st =
     (if index st \<in> set F then Inr st
      else and_then (subscript F 0) (\<lambda>i. Inr (st\<lparr>index := i\<rparr>)))"

subsection \<open>Widgets and actions (lines 46 to 53 and 126 to 161)\<close>

text \<open>
  What the widgets return in one run of the script: the side bar's values, the three
  text fields the save action reads from the session state, and one flag for each
  button. \<open>random_pick\<close> is the number \<open>random.choice\<close> draws.
\<close>

record inputs =
  tag_filter :: string
  search_keyword :: string
  date_range :: string
  bookmarked_only :: bool
  tag_text :: string
  note_text :: string
  user_text :: string
  bookmark_button :: bool
  save_button :: bool
  previous_button :: bool
  random_button :: bool
  random_pick :: nat
  next_button :: bool
  export_button :: bool

text \<open>Lines 50 to 53.\<close>

definition sidebar :: "inputs \<Rightarrow> session \<Rightarrow> session" where
  "sidebar inp st = st\<lparr>show_only_bookmarked := bookmarked_only inp\<rparr>"

text \<open>Lines 130 to 134; \<open>remove\<close> runs only on a member, so it cannot raise.\<close>

definition toggle_bookmark :: "nat \<Rightarrow> nat set \<Rightarrow> nat set" where
  "toggle_bookmark i B = (if i \<in> B then B - {i} else insert i B)"

definition on_bookmark :: "inputs \<Rightarrow> nat \<Rightarrow> session \<Rightarrow> session" where
  "on_bookmark inp current_index st =
     (if bookmark_button inp
        then st\<lparr>bookmarks := toggle_bookmark current_index (bookmarks st)\<rparr>
      else st)"

text \<open>Lines 136 to 144, with the defaults of lines 97 to 99.\<close>

definition new_annotation :: "inputs \<Rightarrow> tweet \<Rightarrow> annotation" where
  "new_annotation inp tw =
     \<lparr>tag = tag_text inp,
      ann_note = note_text inp,
      ann_content = get_content tw,
      ann_date = (case tweetDate tw of None \<Rightarrow> ''Unknown date'' | Some d \<Rightarrow> d),
      ann_user = user_text inp,
      ann_url = (case tweetUrl tw of None \<Rightarrow> [] | Some u \<Rightarrow> u)\<rparr>"

definition on_save :: "inputs \<Rightarrow> nat \<Rightarrow> tweet \<Rightarrow> session \<Rightarrow> session" where
  "on_save inp current_index tw st =
     (if save_button inp
        then st\<lparr>annotations := AList.update current_index (new_annotation inp tw) (annotations st)\<rparr>
      else st)"

text \<open>Lines 150, 153 and 156.\<close>

definition previous_index :: "nat list \<Rightarrow> nat \<Rightarrow> error + nat" where
  "previous_index F current_position = subscript F (max 0 (int current_position - 1))"

definition next_index :: "nat list \<Rightarrow> nat \<Rightarrow> error + nat" where
  "next_index F current_position =
     subscript F (min (int (length F) - 1) (int current_position + 1))"

definition random_choice :: "nat list \<Rightarrow> nat \<Rightarrow> error + nat" where
  "random_choice F r = subscript F (int (r mod length F))"

definition on_previous :: "inputs \<Rightarrow> nat list \<Rightarrow> nat \<Rightarrow> session \<Rightarrow> error + session" where
  "on_previous inp F current_position st =
     (if previous_button inp
        then and_then (previous_index F current_position) (\<lambda>i. Inr (st\<lparr>index := i\<rparr>))
      else Inr st)"

definition on_random :: "inputs \<Rightarrow> nat list \<Rightarrow> session \<Rightarrow> error + session" where
  "on_random inp F st =
     (if random_button inp
        then and_then (random_choice F (random_pick inp)) (\<lambda>i. Inr (st\<lparr>index := i\<rparr>))
      else Inr st)"

definition on_next :: "inputs \<Rightarrow> nat list \<Rightarrow> nat \<Rightarrow> session \<Rightarrow> error + session" where
  "on_next inp F current_position st =
     (if next_button inp
        then and_then (next_index F current_position) (\<lambda>i. Inr (st\<lparr>index := i\<rparr>))
      else Inr st)"

subsection \<open>One run of the script, after the sort\<close>

text \<open>
  What one run shows: the warning of line 85, after which \<open>st.stop()\<close> ends the run,
  or the page of the current tweet, with the annotation store that the export action
  handed to \<open>json.dump\<close> when its button was pressed.
\<close>

record page =
  current_index :: nat
  current_position :: nat
  shown :: tweet
  exported :: "(nat \<times> annotation) list option"

datatype outcome = Warning string | Page page

definition run ::
  "(string \<Rightarrow> error + pydatetime) \<Rightarrow> tweet list \<Rightarrow> inputs \<Rightarrow> session
     \<Rightarrow> error + (outcome \<times> session)" where
  "run fromiso data inp st0 =
     (let st1 = sidebar inp st0;
          F = filtered_indices fromiso data st1 (tag_filter inp) (search_keyword inp)
                (date_range inp)
      in if F = [] then Inr (Warning ''No tweets match your filters.'', st1)
         else
           and_then (revalidate F st1) (\<lambda>st2.
           and_then (list_index F (index st2)) (\<lambda>pos.
           and_then (subscript data (int (index st2))) (\<lambda>tw.
           and_then (on_previous inp F pos
                       (on_save inp (index st2) tw (on_bookmark inp (index st2) st2))) (\<lambda>st3.
           and_then (on_random inp F st3) (\<lambda>st4.
           and_then (on_next inp F pos st4) (\<lambda>st5.
             Inr (Page \<lparr>current_index = index st2, current_position = pos, shown = tw,
                        exported = (if export_button inp then Some (annotations st5)
                                    else None)\<rparr>,
                  st5))))))))"

text \<open>The whole script: the sort of line 25 runs first, and its exception ends the run.\<close>

definition script ::
  "(string \<Rightarrow> error + pydatetime) \<Rightarrow> tweet list \<Rightarrow> inputs \<Rightarrow> session
     \<Rightarrow> error + (outcome \<times> session)" where
  "script fromiso loaded inp st =
     and_then (sort_data fromiso loaded) (\<lambda>data. run fromiso data inp st)"

section \<open>Bookmarks\<close>

text \<open>
  Claim C7. For every bookmark set \<open>B\<close> and index \<open>i\<close>, the toggle adds \<open>i\<close> when it
  is absent, removes it when it is present, changes the membership of no other index,
  and two toggles in a row give \<open>B\<close> back.
\<close>

theorem toggle_bookmark_involution:
  "(i \<notin> B \<longrightarrow> toggle_bookmark i B = insert i B)
   \<and> (i \<in> B \<longrightarrow> toggle_bookmark i B = B - {i})
   \<and> (\<forall>j. j \<noteq> i \<longrightarrow> (j \<in> toggle_bookmark i B) = (j \<in> B))
   \<and> toggle_bookmark i (toggle_bookmark i B) = B"
  by (auto simp: toggle_bookmark_def)

theorem toggle_bookmark_involution_witness:
  "toggle_bookmark 2 {1, 3} = {1, 2, 3}
   \<and> toggle_bookmark 3 {1, 3} = {1}
   \<and> (1 \<in> toggle_bookmark 3 {1, 3})
   \<and> toggle_bookmark 2 (toggle_bookmark 2 {1, 3}) = {1, 3}"
  using toggle_bookmark_involution [of 2 "{1, 3}"] toggle_bookmark_involution [of 3 "{1, 3}"]
  by auto

end
